theory Spec2Isabelle
  imports Complex_Main "HOL-Library.Sublist" "HOL-Library.List_Lexorder"
begin

section \<open>Exceptions and text\<close>

text \<open>
  Python exceptions are values. Each constructor stands for a class together with those
  of its subclasses that have no constructor of their own, as an \<^verbatim>\<open>except\<close>
  clause sees them; \<open>OtherError\<close> is any other subclass of \<^verbatim>\<open>Exception\<close>.
  \<open>ConnectionError\<close>, \<open>TimeoutError\<close> and \<open>PermissionError\<close> are subclasses of
  \<open>OSError\<close>: a clause for \<open>OSError\<close> takes all four. \<open>TimeoutException\<close>,
  \<open>HTTPStatusError\<close> (with the status code of the response) and \<open>NetworkError\<close> are
  the classes of the HTTP client. The argument is the message the exception was
  built with; \<open>HTTPException\<close> carries \<^verbatim>\<open>status_code\<close> and \<^verbatim>\<open>detail\<close>.
  \<open>RequestValidationError\<close> is the framework rejecting a request whose parameters
  break their declared bounds, before the handler runs (the client gets status 422);
  \<open>ResponseValidationError\<close> is the framework finding that what the handler returned
  does not fit the declared response model (the client gets status 500).
  The validation library's \<^verbatim>\<open>ValidationError\<close> is a subclass of
  \<^verbatim>\<open>ValueError\<close> and is represented by that constructor.
  A function that may raise returns \<open>exn + 'a\<close>, \<open>Inl\<close> being the raise.
  Log output is not part of the model.
\<close>

datatype exn =
    HTTPException int string
  | InvalidProductIDError string
  | ProductNotFoundError string
  | ValueError string
  | ConnectionError string
  | TimeoutError string
  | PermissionError string
  | OSError string
  | ZeroDivisionError string
  | OverflowError string
  | TypeError string
  | TimeoutException string
  | HTTPStatusError int string
  | NetworkError string
  | RequestValidationError
  | ResponseValidationError
  | OtherError string

text \<open>Decimal rendering of integers, as \<^verbatim>\<open>str\<close> and f-strings produce it.\<close>

definition digit_char :: "nat \<Rightarrow> char" where
  "digit_char d = ''0123456789'' ! d"

fun str_nat :: "nat \<Rightarrow> string" where
  "str_nat n = (if n < 10 then [digit_char n] else str_nat (n div 10) @ [digit_char (n mod 10)])"

declare str_nat.simps [simp del]

definition str_int :: "int \<Rightarrow> string" where
  "str_int i = (if i < 0 then CHR ''-'' # str_nat (nat (- i)) else str_nat (nat i))"

text \<open>
  \<^verbatim>\<open>str(e)\<close>: the message of a plain exception; the framework's
  \<^verbatim>\<open>HTTPException\<close> prints as \<^verbatim>\<open>"<status_code>: <detail>"\<close>.
\<close>

fun str_exn :: "exn \<Rightarrow> string" where
  "str_exn (HTTPException c d) = str_int c @ '': '' @ d"
| "str_exn (InvalidProductIDError m) = m"
| "str_exn (ProductNotFoundError m) = m"
| "str_exn (ValueError m) = m"
| "str_exn (ConnectionError m) = m"
| "str_exn (TimeoutError m) = m"
| "str_exn (PermissionError m) = m"
| "str_exn (OSError m) = m"
| "str_exn (ZeroDivisionError m) = m"
| "str_exn (OverflowError m) = m"
| "str_exn (TypeError m) = m"
| "str_exn (TimeoutException m) = m"
| "str_exn (HTTPStatusError code m) = m"
| "str_exn (NetworkError m) = m"
| "str_exn RequestValidationError = ''request validation error''"
| "str_exn ResponseValidationError = ''response validation error''"
| "str_exn (OtherError m) = m"

text \<open>
  \<^verbatim>\<open>try: body  except ...: clauses\<close>: the clauses see the exception the body raised;
  a value the body returned passes through.
\<close>

definition try_except :: "exn + 'a \<Rightarrow> (exn \<Rightarrow> exn + 'a) \<Rightarrow> exn + 'a" where
  "try_except body clauses = (case body of Inl e \<Rightarrow> clauses e | Inr v \<Rightarrow> Inr v)"


section \<open>try-except-block-best-practices/example.py\<close>

record Product_te =
  te_id :: string
  te_name :: string
  te_price :: rat
  te_stock :: int

record ProductResponse_te =
  ter_id :: string
  ter_name :: string
  ter_price :: rat
  ter_stock :: int
  ter_in_stock :: bool

text \<open>The simulated database query of the example: the product is never found.\<close>

definition simulated_product :: "Product_te option" where
  "simulated_product = None"

definition get_product_by_id_try :: "string \<Rightarrow> exn + ProductResponse_te" where
  "get_product_by_id_try product_id =
     (if product_id = [] \<or> length product_id < 3
      then Inl (HTTPException 400 ''Invalid product ID format'')
      else (case simulated_product of
              None \<Rightarrow> Inl (HTTPException 404 (''Product '' @ product_id @ '' not found''))
            | Some product \<Rightarrow>
                Inr \<lparr>ter_id = te_id product, ter_name = te_name product,
                     ter_price = te_price product, ter_stock = te_stock product,
                     ter_in_stock = (te_stock product > 0)\<rparr>))"

fun get_product_by_id_except :: "exn \<Rightarrow> exn + ProductResponse_te" where
  "get_product_by_id_except (HTTPException c d) = Inl (HTTPException c d)"
| "get_product_by_id_except e = Inl (HTTPException 500 ''Internal server error'')"

definition get_product_by_id :: "string \<Rightarrow> exn + ProductResponse_te" where
  "get_product_by_id product_id =
     try_except (get_product_by_id_try product_id) get_product_by_id_except"

definition get_product_or_fail :: "string \<Rightarrow> exn + Product_te" where
  "get_product_or_fail product_id =
     (if product_id = [] \<or> length product_id < 3
      then Inl (InvalidProductIDError (''Invalid product ID: '' @ product_id))
      else (case simulated_product of
              None \<Rightarrow> Inl (ProductNotFoundError (''Product '' @ product_id @ '' not found''))
            | Some product \<Rightarrow> Inr product))"

fun get_product_details_except :: "exn \<Rightarrow> exn + Product_te" where
  "get_product_details_except (InvalidProductIDError m) =
     Inl (HTTPException 400 (str_exn (InvalidProductIDError m)))"
| "get_product_details_except (ProductNotFoundError m) =
     Inl (HTTPException 404 (str_exn (ProductNotFoundError m)))"
| "get_product_details_except e = Inl (HTTPException 500 ''Internal server error'')"

definition get_product_details :: "string \<Rightarrow> exn + Product_te" where
  "get_product_details product_id =
     try_except (get_product_or_fail product_id) get_product_details_except"


section \<open>error-handling/error_handlers.py\<close>

text \<open>A returned dictionary is an association list of its keys and values.\<close>

type_synonym json_dict = "(string \<times> string) list"

definition create_user_try :: "string \<Rightarrow> string \<Rightarrow> exn + json_dict" where
  "create_user_try email password =
     (if CHR ''@'' \<notin> set email
      then Inl (HTTPException 400 ''Invalid email format'')
      else if length password < 8
      then Inl (HTTPException 400 ''Password must be at least 8 characters'')
      else Inr [(''email'', email), (''status'', ''created'')])"

fun create_user_except :: "exn \<Rightarrow> exn + json_dict" where
  "create_user_except (HTTPException c d) = Inl (HTTPException c d)"
| "create_user_except e = Inl (HTTPException 500 ''An error occurred while creating the user'')"

definition create_user :: "string \<Rightarrow> string \<Rightarrow> exn + json_dict" where
  "create_user email password = try_except (create_user_try email password) create_user_except"

text \<open>\<^verbatim>\<open>result = 1 / 0\<close> raises before anything is returned.\<close>

definition bad_error_handling_try :: "json_dict \<Rightarrow> exn + rat" where
  "bad_error_handling_try data = Inl (ZeroDivisionError ''division by zero'')"

definition bad_error_handling_except :: "exn \<Rightarrow> exn + rat" where
  "bad_error_handling_except e = Inl (HTTPException 500 (''Error: '' @ str_exn e))"

definition bad_error_handling :: "json_dict \<Rightarrow> exn + rat" where
  "bad_error_handling data = try_except (bad_error_handling_try data) bad_error_handling_except"

definition good_error_handling_try :: "json_dict \<Rightarrow> exn + json_dict" where
  "good_error_handling_try data = Inr [(''status'', ''success'')]"

fun good_error_handling_except :: "exn \<Rightarrow> exn + json_dict" where
  "good_error_handling_except (ValueError m) = Inl (HTTPException 400 ''Invalid data provided'')"
| "good_error_handling_except (ConnectionError m) =
     Inl (HTTPException 503 ''Service temporarily unavailable'')"
| "good_error_handling_except e =
     Inl (HTTPException 500 ''An error occurred processing your request'')"

definition good_error_handling :: "json_dict \<Rightarrow> exn + json_dict" where
  "good_error_handling data =
     try_except (good_error_handling_try data) good_error_handling_except"


section \<open>search-routes-with-pagination-best-practices/example.py\<close>

text \<open>
  A document of the collection. The object id is a 12-byte value ordered bytewise, that
  is a natural number; prices are exact rationals in place of floats; timestamps are
  integers. The driver's functions are parameters of the handlers that use them:
  \<open>str_oid\<close> renders an object id, \<open>ObjectId\<close> parses one or raises, and
  \<open>RegEx pattern text\<close> is the case-insensitive regular-expression search.
  The database is either the list of stored documents or, as \<open>Inl e\<close>, a store whose
  queries raise \<open>e\<close>.
\<close>

record Product =
  doc_id :: nat
  name :: string
  description :: string
  category :: string
  price :: rat
  stock :: int
  tags :: "string list"
  is_active :: bool
  is_featured :: bool
  created_at :: int
  updated_at :: int

type_synonym database = "exn + Product list"

record ProductResponse =
  pr_id :: string
  pr_name :: string
  pr_description :: string
  pr_category :: string
  pr_price :: rat
  pr_stock :: int
  pr_tags :: "string list"
  pr_is_active :: bool
  pr_created_at :: int

definition ProductResponse_from_document :: "(nat \<Rightarrow> string) \<Rightarrow> Product \<Rightarrow> ProductResponse" where
  "ProductResponse_from_document str_oid product =
     \<lparr>pr_id = str_oid (doc_id product), pr_name = name product,
      pr_description = description product, pr_category = category product,
      pr_price = price product, pr_stock = stock product, pr_tags = tags product,
      pr_is_active = is_active product, pr_created_at = created_at product\<rparr>"

record ProductListItem =
  li_id :: string
  li_name :: string
  li_category :: string
  li_price :: rat
  li_stock :: int

definition ProductListItem_from_document :: "(nat \<Rightarrow> string) \<Rightarrow> Product \<Rightarrow> ProductListItem" where
  "ProductListItem_from_document str_oid product =
     \<lparr>li_id = str_oid (doc_id product), li_name = name product,
      li_category = category product, li_price = price product, li_stock = stock product\<rparr>"

record 'a PaginatedResponse =
  total :: int
  page :: int
  page_size :: int
  total_pages :: int
  has_next :: bool
  has_prev :: bool
  items :: "'a list"

text \<open>
  Building the response model validates the declared bounds
  (\<^verbatim>\<open>page >= 1\<close>, \<^verbatim>\<open>1 <= page_size <= 100\<close>, \<^verbatim>\<open>total_pages >= 1\<close>)
  and raises the library's validation error otherwise.
\<close>

definition PaginatedResponse_init ::
  "int \<Rightarrow> int \<Rightarrow> int \<Rightarrow> int \<Rightarrow> bool \<Rightarrow> bool \<Rightarrow> 'a list \<Rightarrow> exn + 'a PaginatedResponse" where
  "PaginatedResponse_init t p ps tp hn hp its =
     (if 1 \<le> p \<and> 1 \<le> ps \<and> ps \<le> 100 \<and> 1 \<le> tp
      then Inr \<lparr>total = t, page = p, page_size = ps, total_pages = tp,
                has_next = hn, has_prev = hp, items = its\<rparr>
      else Inl (ValueError ''validation error for PaginatedResponse''))"

record 'a CursorPaginatedResponse =
  c_items :: "'a list"
  next_cursor :: "string option"
  has_more :: bool
  count :: int

datatype SortField = sf_name | sf_price | sf_created_at | sf_stock

fun SortField_value :: "SortField \<Rightarrow> string" where
  "SortField_value sf_name = ''name''"
| "SortField_value sf_price = ''price''"
| "SortField_value sf_created_at = ''created_at''"
| "SortField_value sf_stock = ''stock''"

datatype SortOrder = asc | desc

text \<open>
  The query operations of the document mapper on a list of documents:
  \<^verbatim>\<open>sort("+field")\<close> and \<^verbatim>\<open>sort("-field")\<close>, \<^verbatim>\<open>skip(n)\<close>,
  \<^verbatim>\<open>limit(n)\<close>. Names are compared by their character codes.
\<close>

definition sort_by_field :: "string \<Rightarrow> Product list \<Rightarrow> Product list" where
  "sort_by_field field xs =
     (if field = ''_id'' then sort_key doc_id xs
      else if field = ''name'' then sort_key (\<lambda>p. map (of_char :: char \<Rightarrow> nat) (name p)) xs
      else if field = ''price'' then sort_key price xs
      else if field = ''created_at'' then sort_key created_at xs
      else if field = ''stock'' then sort_key stock xs
      else xs)"

definition db_sort :: "string \<Rightarrow> Product list \<Rightarrow> Product list" where
  "db_sort sort_string xs =
     (case sort_string of
        [] \<Rightarrow> xs
      | c # field \<Rightarrow>
          if c = CHR ''-'' then rev (sort_by_field field xs)
          else if c = CHR ''+'' then sort_by_field field xs
          else sort_by_field sort_string xs)"

definition db_skip :: "int \<Rightarrow> 'a list \<Rightarrow> 'a list" where
  "db_skip n xs = drop (nat n) xs"

definition db_limit :: "int \<Rightarrow> 'a list \<Rightarrow> 'a list" where
  "db_limit n xs = (if n = 0 then xs else take (nat \<bar>n\<bar>) xs)"

text \<open>
  \<^verbatim>\<open>math.ceil(a / b)\<close> on integers; \<^verbatim>\<open>a / b\<close> raises on a zero divisor.
  The quotient is exact here, where the source rounds it to a float.
\<close>

definition ceil_div :: "int \<Rightarrow> int \<Rightarrow> exn + int" where
  "ceil_div a b =
     (if b = 0 then Inl (ZeroDivisionError ''division by zero'')
      else Inr \<lceil>(of_int a :: rat) / of_int b\<rceil>)"

definition calc_total_pages :: "int \<Rightarrow> int \<Rightarrow> exn + int" where
  "calc_total_pages t ps = (if t > 0 then ceil_div t ps else Inr 1)"

text \<open>The validation the framework applies to \<^verbatim>\<open>page\<close> and \<^verbatim>\<open>page_size\<close>
  (\<^verbatim>\<open>Query(1, ge=1)\<close>, \<^verbatim>\<open>Query(20, ge=1, le=100)\<close>) before the handler runs.\<close>

definition valid_page_query :: "int \<Rightarrow> int \<Rightarrow> bool" where
  "valid_page_query p ps \<longleftrightarrow> 1 \<le> p \<and> 1 \<le> ps \<and> ps \<le> 100"

record PaginationParams =
  pp_page :: int
  pp_page_size :: int
  pp_skip :: int

definition PaginationParams_init :: "int \<Rightarrow> int \<Rightarrow> PaginationParams" where
  "PaginationParams_init p ps = \<lparr>pp_page = p, pp_page_size = ps, pp_skip = (p - 1) * ps\<rparr>"

subsection \<open>Pattern 1: basic pagination\<close>

definition active_products :: "Product list \<Rightarrow> Product list" where
  "active_products docs = filter (\<lambda>p. is_active p = True) docs"

definition list_products_basic_try ::
  "(nat \<Rightarrow> string) \<Rightarrow> database \<Rightarrow> int \<Rightarrow> int \<Rightarrow> exn + ProductListItem PaginatedResponse" where
  "list_products_basic_try str_oid db p ps =
     (let skip = (p - 1) * ps in
      case db of
        Inl e \<Rightarrow> Inl e
      | Inr docs \<Rightarrow>
          let t = int (length (active_products docs));
              products = db_limit ps (db_skip skip (db_sort ''-created_at'' (active_products docs)))
          in (case calc_total_pages t ps of
                Inl e \<Rightarrow> Inl e
              | Inr tp \<Rightarrow>
                  PaginatedResponse_init t p ps tp (p < tp) (p > 1)
                    (map (ProductListItem_from_document str_oid) products)))"

definition list_products_basic_except :: "exn \<Rightarrow> exn + ProductListItem PaginatedResponse" where
  "list_products_basic_except e = Inl (HTTPException 500 ''Failed to retrieve products'')"

definition list_products_basic ::
  "(nat \<Rightarrow> string) \<Rightarrow> database \<Rightarrow> int \<Rightarrow> int \<Rightarrow> exn + ProductListItem PaginatedResponse" where
  "list_products_basic str_oid db p ps =
     (if \<not> valid_page_query p ps then Inl RequestValidationError
      else try_except (list_products_basic_try str_oid db p ps) list_products_basic_except)"


subsection \<open>Pattern 2: filtering\<close>

record ProductFilters =
  f_q :: "string option"
  f_category :: "string option"
  f_min_price :: "rat option"
  f_max_price :: "rat option"
  f_in_stock :: "bool option"
  f_tags :: "string list"
  f_is_active :: "bool option"

definition valid_filter_query :: "ProductFilters \<Rightarrow> bool" where
  "valid_filter_query f \<longleftrightarrow>
     (case f_q f of None \<Rightarrow> True | Some q \<Rightarrow> 2 \<le> length q \<and> length q \<le> 100) \<and>
     (case f_category f of None \<Rightarrow> True | Some c \<Rightarrow> length c \<le> 100) \<and>
     (case f_min_price f of None \<Rightarrow> True | Some m \<Rightarrow> 0 \<le> m) \<and>
     (case f_max_price f of None \<Rightarrow> True | Some m \<Rightarrow> 0 \<le> m) \<and>
     length (f_tags f) \<le> 10"

text \<open>\<^verbatim>\<open>if s:\<close> on an optional string: present and not empty.\<close>

fun truthy :: "string option \<Rightarrow> bool" where
  "truthy None = False"
| "truthy (Some s) = (s \<noteq> [])"

type_synonym condition = "Product \<Rightarrow> bool"

definition stock_condition :: "bool option \<Rightarrow> condition list" where
  "stock_condition b =
     (case b of
        None \<Rightarrow> []
      | Some v \<Rightarrow> if v then [\<lambda>p. stock p > 0] else [\<lambda>p. stock p = 0])"

definition price_conditions :: "rat option \<Rightarrow> rat option \<Rightarrow> condition list" where
  "price_conditions lo hi =
     (case lo of None \<Rightarrow> [] | Some m \<Rightarrow> [\<lambda>p. price p \<ge> m]) @
     (case hi of None \<Rightarrow> [] | Some m \<Rightarrow> [\<lambda>p. price p \<le> m])"

definition tags_condition :: "string list \<Rightarrow> condition list" where
  "tags_condition ts = (if ts \<noteq> [] then [\<lambda>p. list_ex (\<lambda>t. t \<in> set ts) (tags p)] else [])"

definition build_conditions :: "(string \<Rightarrow> string \<Rightarrow> bool) \<Rightarrow> ProductFilters \<Rightarrow> condition list" where
  "build_conditions RegEx f =
     (if truthy (f_q f)
      then [\<lambda>p. RegEx (the (f_q f)) (name p) \<or> RegEx (the (f_q f)) (description p)] else []) @
     (if truthy (f_category f) then [\<lambda>p. RegEx (the (f_category f)) (category p)] else []) @
     price_conditions (f_min_price f) (f_max_price f) @
     stock_condition (f_in_stock f) @
     tags_condition (f_tags f) @
     (case f_is_active f of None \<Rightarrow> [] | Some a \<Rightarrow> [\<lambda>p. is_active p = a])"

text \<open>\<^verbatim>\<open>Product.find(And(*conditions))\<close>; \<^verbatim>\<open>Product.find()\<close> is the empty conjunction.\<close>

definition And :: "condition list \<Rightarrow> condition" where
  "And conditions p = list_all (\<lambda>c. c p) conditions"

definition Product_find :: "condition list \<Rightarrow> Product list \<Rightarrow> Product list" where
  "Product_find conditions docs = filter (And conditions) docs"

definition filter_products_try ::
  "(string \<Rightarrow> string \<Rightarrow> bool) \<Rightarrow> (nat \<Rightarrow> string) \<Rightarrow> database \<Rightarrow> ProductFilters \<Rightarrow>
   PaginationParams \<Rightarrow> SortField \<Rightarrow> SortOrder \<Rightarrow> exn + ProductResponse PaginatedResponse" where
  "filter_products_try RegEx str_oid db filters pagination sort_by order =
     (let conditions = build_conditions RegEx filters in
      case db of
        Inl e \<Rightarrow> Inl e
      | Inr docs \<Rightarrow>
          let query = Product_find conditions docs;
              t = int (length query);
              sort_string = (if order = desc then ''-'' else ''+'') @ SortField_value sort_by;
              products = db_limit (pp_page_size pagination)
                           (db_skip (pp_skip pagination) (db_sort sort_string query))
          in (case calc_total_pages t (pp_page_size pagination) of
                Inl e \<Rightarrow> Inl e
              | Inr tp \<Rightarrow>
                  PaginatedResponse_init t (pp_page pagination) (pp_page_size pagination) tp
                    (pp_page pagination < tp) (pp_page pagination > 1)
                    (map (ProductResponse_from_document str_oid) products)))"

definition filter_products_except :: "exn \<Rightarrow> exn + ProductResponse PaginatedResponse" where
  "filter_products_except e = Inl (HTTPException 500 ''Failed to filter products'')"

definition filter_products ::
  "(string \<Rightarrow> string \<Rightarrow> bool) \<Rightarrow> (nat \<Rightarrow> string) \<Rightarrow> database \<Rightarrow> ProductFilters \<Rightarrow>
   int \<Rightarrow> int \<Rightarrow> SortField \<Rightarrow> SortOrder \<Rightarrow> exn + ProductResponse PaginatedResponse" where
  "filter_products RegEx str_oid db filters p ps sort_by order =
     (if \<not> (valid_filter_query filters \<and> valid_page_query p ps) then Inl RequestValidationError
      else try_except
             (filter_products_try RegEx str_oid db filters (PaginationParams_init p ps) sort_by order)
             filter_products_except)"

subsection \<open>Pattern 3: complete search\<close>

record SearchQuery =
  s_q :: "string option"
  s_category :: "string option"
  s_min_price :: "rat option"
  s_max_price :: "rat option"
  s_in_stock :: "bool option"
  s_tags :: "string list"
  s_sort_by :: string
  s_order :: string
  s_page :: int
  s_page_size :: int

definition valid_search_query :: "SearchQuery \<Rightarrow> bool" where
  "valid_search_query s \<longleftrightarrow>
     (case s_q s of None \<Rightarrow> True | Some q \<Rightarrow> 2 \<le> length q \<and> length q \<le> 100) \<and>
     (case s_category s of None \<Rightarrow> True | Some c \<Rightarrow> length c \<le> 100) \<and>
     (case s_min_price s of None \<Rightarrow> True | Some m \<Rightarrow> 0 \<le> m) \<and>
     (case s_max_price s of None \<Rightarrow> True | Some m \<Rightarrow> 0 \<le> m) \<and>
     length (s_tags s) \<le> 10 \<and>
     s_sort_by s \<in> set [''name'', ''price'', ''created_at'', ''stock''] \<and>
     s_order s \<in> set [''asc'', ''desc''] \<and>
     valid_page_query (s_page s) (s_page_size s)"

definition search_conditions :: "(string \<Rightarrow> string \<Rightarrow> bool) \<Rightarrow> SearchQuery \<Rightarrow> condition list" where
  "search_conditions RegEx s =
     (if truthy (s_q s)
      then [\<lambda>p. RegEx (the (s_q s)) (name p) \<or> RegEx (the (s_q s)) (description p) \<or>
                RegEx (the (s_q s)) (category p)] else []) @
     (if truthy (s_category s) then [\<lambda>p. RegEx (the (s_category s)) (category p)] else []) @
     price_conditions (s_min_price s) (s_max_price s) @
     stock_condition (s_in_stock s) @
     tags_condition (s_tags s) @
     [\<lambda>p. is_active p = True]"

definition search_products_try ::
  "(string \<Rightarrow> string \<Rightarrow> bool) \<Rightarrow> (nat \<Rightarrow> string) \<Rightarrow> database \<Rightarrow> SearchQuery \<Rightarrow>
   exn + ProductResponse PaginatedResponse" where
  "search_products_try RegEx str_oid db s =
     (let conditions = search_conditions RegEx s in
      case db of
        Inl e \<Rightarrow> Inl e
      | Inr docs \<Rightarrow>
          let query = Product_find conditions docs;
              t = int (length query);
              skip = (s_page s - 1) * s_page_size s
          in (case calc_total_pages t (s_page_size s) of
                Inl e \<Rightarrow> Inl e
              | Inr tp \<Rightarrow>
                  let sort_string = (if s_order s = ''desc'' then ''-'' else ''+'') @ s_sort_by s;
                      products = db_limit (s_page_size s) (db_skip skip (db_sort sort_string query))
                  in PaginatedResponse_init t (s_page s) (s_page_size s) tp
                       (s_page s < tp) (s_page s > 1)
                       (map (ProductResponse_from_document str_oid) products)))"

definition search_products_except :: "exn \<Rightarrow> exn + ProductResponse PaginatedResponse" where
  "search_products_except e = Inl (HTTPException 500 ''Search operation failed'')"

definition search_products ::
  "(string \<Rightarrow> string \<Rightarrow> bool) \<Rightarrow> (nat \<Rightarrow> string) \<Rightarrow> database \<Rightarrow> SearchQuery \<Rightarrow>
   exn + ProductResponse PaginatedResponse" where
  "search_products RegEx str_oid db s =
     (if \<not> valid_search_query s then Inl RequestValidationError
      else try_except (search_products_try RegEx str_oid db s) search_products_except)"

subsection \<open>Pattern 4: cursor pagination\<close>

text \<open>\<^verbatim>\<open>xs[:n]\<close>, with Python's reading of a negative bound.\<close>

definition slice_to :: "int \<Rightarrow> 'a list \<Rightarrow> 'a list" where
  "slice_to n xs = (if 0 \<le> n then take (nat n) xs else take (length xs - nat (- n)) xs)"

text \<open>
  The conditions of the cursor query: active products, of the category when one is
  given, and after the cursor when one is given. A cursor that does not parse is
  answered with status 400 from inside the inner \<^verbatim>\<open>try\<close>, whose only clause is
  \<^verbatim>\<open>except Exception\<close>.
\<close>

definition cursor_parse_except :: "exn \<Rightarrow> exn + condition list" where
  "cursor_parse_except e = Inl (HTTPException 400 ''Invalid cursor format'')"

definition cursor_conditions ::
  "(string \<Rightarrow> exn + nat) \<Rightarrow> string option \<Rightarrow> string option \<Rightarrow> exn + condition list" where
  "cursor_conditions ObjectId cursor cat =
     (let conditions = [\<lambda>p. is_active p = True] @
                       (if truthy cat then [\<lambda>p. category p = the cat] else [])
      in if truthy cursor
         then try_except
                (case ObjectId (the cursor) of
                   Inl e \<Rightarrow> Inl e
                 | Inr cursor_id \<Rightarrow> Inr (conditions @ [\<lambda>p. doc_id p > cursor_id]))
                cursor_parse_except
         else Inr conditions)"

text \<open>
  The answer of the cursor handler is paired with the result sets that the store handed
  to it, one for each query it ran, so that what the handler fetches is part of what the
  model returns.
\<close>

definition list_products_cursor_try ::
  "(string \<Rightarrow> exn + nat) \<Rightarrow> (nat \<Rightarrow> string) \<Rightarrow> database \<Rightarrow> string option \<Rightarrow> int \<Rightarrow>
   string option \<Rightarrow> (exn + ProductResponse CursorPaginatedResponse) \<times> Product list list" where
  "list_products_cursor_try ObjectId str_oid db cursor limit cat =
     (case cursor_conditions ObjectId cursor cat of
        Inl e \<Rightarrow> (Inl e, [])
      | Inr conditions \<Rightarrow>
          (case db of
             Inl e \<Rightarrow> (Inl e, [])
           | Inr docs \<Rightarrow>
               let fetched = db_limit (limit + 1) (db_sort ''+_id'' (Product_find conditions docs));
                   more = int (length fetched) > limit;
                   products = (if more then slice_to limit fetched else fetched);
                   next = (if products \<noteq> [] \<and> more
                           then Some (str_oid (doc_id (last products))) else None)
               in (Inr \<lparr>c_items = map (ProductResponse_from_document str_oid) products,
                        next_cursor = next, has_more = more,
                        count = int (length products)\<rparr>, [fetched])))"

fun list_products_cursor_except :: "exn \<Rightarrow> exn + ProductResponse CursorPaginatedResponse" where
  "list_products_cursor_except (HTTPException c d) = Inl (HTTPException c d)"
| "list_products_cursor_except e = Inl (HTTPException 500 ''Failed to retrieve products'')"

definition list_products_cursor ::
  "(string \<Rightarrow> exn + nat) \<Rightarrow> (nat \<Rightarrow> string) \<Rightarrow> database \<Rightarrow> string option \<Rightarrow> int \<Rightarrow>
   string option \<Rightarrow> (exn + ProductResponse CursorPaginatedResponse) \<times> Product list list" where
  "list_products_cursor ObjectId str_oid db cursor limit cat =
     (if \<not> (1 \<le> limit \<and> limit \<le> 100) then (Inl RequestValidationError, [])
      else (case list_products_cursor_try ObjectId str_oid db cursor limit cat of
              (answer, fetches) \<Rightarrow> (try_except answer list_products_cursor_except, fetches)))"


section \<open>path-query-body-best-practices/example.py\<close>

record PaginationParams_pq =
  pq_page :: int
  pq_limit :: int

definition PaginationParams_pq_init :: "int \<Rightarrow> int \<Rightarrow> exn + PaginationParams_pq" where
  "PaginationParams_pq_init p l =
     (if 1 \<le> p \<and> 1 \<le> l \<and> l \<le> 100 then Inr \<lparr>pq_page = p, pq_limit = l\<rparr>
      else Inl (ValueError ''validation error for PaginationParams''))"

definition get_skip :: "PaginationParams_pq \<Rightarrow> int" where
  "get_skip self = (pq_page self - 1) * pq_limit self"


section \<open>computed-field-best-practices/example.py\<close>

text \<open>
  The stored fields of the product document of this module. Prices and costs are exact
  rationals; \<open>normalize_text\<close> (\<^verbatim>\<open>v.strip().title()\<close>), \<open>round2\<close>
  (\<^verbatim>\<open>round(v, 2)\<close>), \<open>str_float\<close> (a float inside an f-string) and the clock
  are parameters of construction. A \<^verbatim>\<open>ValueError\<close> raised by a validator is
  kept with the validator's own message.
\<close>

record Product_cf =
  cf_name :: string
  cf_category :: string
  cf_price :: rat
  cf_quantity :: int
  cf_cost :: rat
  cf_low_stock_threshold :: int
  cf_last_updated :: int

text \<open>The declared bounds of the fields, each on its own field.\<close>

definition Product_cf_fields_ok :: "string \<Rightarrow> string \<Rightarrow> rat \<Rightarrow> int \<Rightarrow> rat \<Rightarrow> int \<Rightarrow> bool" where
  "Product_cf_fields_ok n c pr q co lst \<longleftrightarrow>
     1 \<le> length n \<and> length n \<le> 150 \<and> 1 \<le> length c \<and> length c \<le> 150 \<and>
     0 < pr \<and> 0 \<le> q \<and> 0 < co \<and> 0 \<le> lst"

text \<open>
  Model construction: the field bounds, then the field validators
  (\<^verbatim>\<open>normalize_text\<close>, \<^verbatim>\<open>round_money\<close>), then the model validators
  \<^verbatim>\<open>update_timestamp\<close> and \<^verbatim>\<open>validate_profit_margin\<close>.
\<close>

definition Product_cf_init ::
  "(string \<Rightarrow> string) \<Rightarrow> (rat \<Rightarrow> rat) \<Rightarrow> (rat \<Rightarrow> string) \<Rightarrow> int \<Rightarrow>
   string \<Rightarrow> string \<Rightarrow> rat \<Rightarrow> int \<Rightarrow> rat \<Rightarrow> int \<Rightarrow> exn + Product_cf" where
  "Product_cf_init normalize_text round2 str_float now n c pr q co lst =
     (if \<not> Product_cf_fields_ok n c pr q co lst
      then Inl (ValueError ''validation error for Product'')
      else let self = \<lparr>cf_name = normalize_text n, cf_category = normalize_text c,
                        cf_price = round2 pr, cf_quantity = q, cf_cost = round2 co,
                        cf_low_stock_threshold = lst, cf_last_updated = now\<rparr>
           in if cf_price self < cf_cost self
              then Inl (ValueError (''Price ('' @ str_float (cf_price self) @
                          '') cannot be less than cost ('' @ str_float (cf_cost self) @ '')''))
              else Inr self)"

definition in_stock :: "Product_cf \<Rightarrow> bool" where
  "in_stock self \<longleftrightarrow> cf_quantity self > 0"

definition stock_status :: "Product_cf \<Rightarrow> string" where
  "stock_status self =
     (if cf_quantity self = 0 then ''out_of_stock''
      else if cf_quantity self \<le> cf_low_stock_threshold self then ''low_stock''
      else ''in_stock'')"

definition total_value :: "(rat \<Rightarrow> rat) \<Rightarrow> Product_cf \<Rightarrow> rat" where
  "total_value round2 self = round2 (cf_cost self * of_int (cf_quantity self))"

definition profit_margin :: "(rat \<Rightarrow> rat) \<Rightarrow> Product_cf \<Rightarrow> rat" where
  "profit_margin round2 self =
     (if cf_price self = 0 then 0
      else round2 (((cf_price self - cf_cost self) / cf_price self) * 100))"

definition needs_restock :: "Product_cf \<Rightarrow> bool" where
  "needs_restock self \<longleftrightarrow> cf_quantity self < cf_low_stock_threshold self"

record StockAdjustment =
  adjustment :: int
  reason :: "string option"

text \<open>
  The collection is a map from object ids to stored documents. A handler takes the
  collection and returns its answer together with the collection as it leaves it.
  The functions of the libraries that the handlers of this module use are the fields of
  one record: the parser of object ids, the text and rounding functions of the field
  validators, the rendering of a float, and the clock.
\<close>

type_synonym collection = "nat \<rightharpoonup> Product_cf"

record library =
  lib_ObjectId :: "string \<Rightarrow> exn + nat"
  lib_normalize_text :: "string \<Rightarrow> string"
  lib_round2 :: "rat \<Rightarrow> rat"
  lib_str_float :: "rat \<Rightarrow> string"
  lib_now :: int

text \<open>
  \<^verbatim>\<open>Product.get(product_id)\<close>: the id is parsed, which raises when it is no object
  id; a document that is found is built by model construction, so that the validators
  run again and \<^verbatim>\<open>update_timestamp\<close> renews \<^verbatim>\<open>last_updated\<close>.
\<close>

definition Product_get :: "library \<Rightarrow> collection \<Rightarrow> string \<Rightarrow> exn + (nat \<times> Product_cf) option" where
  "Product_get lib store product_id =
     (case lib_ObjectId lib product_id of
        Inl e \<Rightarrow> Inl e
      | Inr oid \<Rightarrow>
          (case store oid of
             None \<Rightarrow> Inr None
           | Some d \<Rightarrow>
               (case Product_cf_init (lib_normalize_text lib) (lib_round2 lib) (lib_str_float lib)
                       (lib_now lib) (cf_name d) (cf_category d) (cf_price d) (cf_quantity d)
                       (cf_cost d) (cf_low_stock_threshold d) of
                  Inl e \<Rightarrow> Inl e
                | Inr product \<Rightarrow> Inr (Some (oid, product)))))"

text \<open>
  \<^verbatim>\<open>product.save()\<close> writes the document back under its id. The store holds
  integers of 8 bytes: encoding a larger one raises \<^verbatim>\<open>OverflowError\<close> and nothing is
  written.
\<close>

definition int64 :: "int \<Rightarrow> bool" where
  "int64 i \<longleftrightarrow> - (2 ^ 63) \<le> i \<and> i < 2 ^ 63"

definition Product_save :: "collection \<Rightarrow> nat \<Rightarrow> Product_cf \<Rightarrow> exn + collection" where
  "Product_save store oid product =
     (if int64 (cf_quantity product) \<and> int64 (cf_low_stock_threshold product)
      then Inr (store(oid \<mapsto> product))
      else Inl (OverflowError ''MongoDB can only handle up to 8-byte ints''))"

text \<open>The handler as written: it returns the document, with its id.\<close>

definition adjust_stock ::
  "library \<Rightarrow> collection \<Rightarrow> string \<Rightarrow> StockAdjustment \<Rightarrow>
   (exn + nat \<times> Product_cf) \<times> collection" where
  "adjust_stock lib store product_id adj =
     (case Product_get lib store product_id of
        Inl e \<Rightarrow> (Inl e, store)
      | Inr None \<Rightarrow> (Inl (HTTPException 404 ''Product not found''), store)
      | Inr (Some (oid, product)) \<Rightarrow>
          let new_quantity = cf_quantity product + adjustment adj in
          if new_quantity < 0
          then (Inl (HTTPException 400
                  (''Cannot remove '' @ str_int \<bar>adjustment adj\<bar> @ '' items. Only '' @
                   str_int (cf_quantity product) @ '' in stock.'')), store)
          else let saved = product\<lparr>cf_quantity := new_quantity\<rparr>
               in (case Product_save store oid saved of
                     Inl e \<Rightarrow> (Inl e, store)
                   | Inr store' \<Rightarrow> (Inr (oid, saved), store')))"

text \<open>
  The route declares \<^verbatim>\<open>response_model=ProductResponse\<close>: what the handler returns
  is validated against that model before it is sent. Its field \<^verbatim>\<open>id\<close> is declared
  \<^verbatim>\<open>str\<close>; the id of a document is an object id.
\<close>

datatype id_value = IdObject nat | IdStr string

record ProductResponse_cf =
  rcf_id :: string
  rcf_name :: string
  rcf_category :: string
  rcf_price :: rat
  rcf_quantity :: int
  rcf_cost :: rat
  rcf_low_stock_threshold :: int
  rcf_in_stock :: bool
  rcf_stock_status :: string
  rcf_total_value :: rat
  rcf_profit_margin :: rat
  rcf_last_updated :: int

definition ProductResponse_cf_validate ::
  "(rat \<Rightarrow> rat) \<Rightarrow> id_value \<Rightarrow> Product_cf \<Rightarrow> exn + ProductResponse_cf" where
  "ProductResponse_cf_validate round2 idv product =
     (case idv of
        IdObject oid \<Rightarrow> Inl ResponseValidationError
      | IdStr s \<Rightarrow>
          Inr \<lparr>rcf_id = s, rcf_name = cf_name product, rcf_category = cf_category product,
               rcf_price = cf_price product, rcf_quantity = cf_quantity product,
               rcf_cost = cf_cost product,
               rcf_low_stock_threshold = cf_low_stock_threshold product,
               rcf_in_stock = in_stock product, rcf_stock_status = stock_status product,
               rcf_total_value = total_value round2 product,
               rcf_profit_margin = profit_margin round2 product,
               rcf_last_updated = cf_last_updated product\<rparr>)"

definition adjust_stock_route ::
  "library \<Rightarrow> collection \<Rightarrow> string \<Rightarrow> StockAdjustment \<Rightarrow>
   (exn + ProductResponse_cf) \<times> collection" where
  "adjust_stock_route lib store product_id adj =
     (if \<not> (case reason adj of None \<Rightarrow> True | Some r \<Rightarrow> length r \<le> 200)
      then (Inl RequestValidationError, store)
      else (case adjust_stock lib store product_id adj of
              (Inl e, store') \<Rightarrow> (Inl e, store')
            | (Inr (oid, product), store') \<Rightarrow>
                (ProductResponse_cf_validate (lib_round2 lib) (IdObject oid) product, store')))"

text \<open>Every stored product has a quantity that is not negative.\<close>

definition quantities_ok :: "collection \<Rightarrow> bool" where
  "quantities_ok store \<longleftrightarrow> (\<forall>p \<in> ran store. 0 \<le> cf_quantity p)"


section \<open>fastapi-schemas-best-practices/example.py\<close>

text \<open>
  A \<^verbatim>\<open>datetime\<close> is naive, a number of microseconds of wall-clock time, or aware,
  a number of microseconds on the universal time line (the offsets that the validation
  library parses are fixed). Comparing or subtracting a naive and an aware datetime raises
  \<^verbatim>\<open>TypeError\<close>, which model construction does not turn into a validation error.
  The \<^verbatim>\<open>days\<close> of a difference is its quotient by the microseconds of a day.
\<close>

datatype datetime = Naive int | Aware int

fun datetime_le :: "datetime \<Rightarrow> datetime \<Rightarrow> exn + bool" where
  "datetime_le (Naive a) (Naive b) = Inr (a \<le> b)"
| "datetime_le (Aware a) (Aware b) = Inr (a \<le> b)"
| "datetime_le a b = Inl (TypeError ''can't compare offset-naive and offset-aware datetimes'')"

fun datetime_sub :: "datetime \<Rightarrow> datetime \<Rightarrow> exn + int" where
  "datetime_sub (Naive a) (Naive b) = Inr (a - b)"
| "datetime_sub (Aware a) (Aware b) = Inr (a - b)"
| "datetime_sub a b = Inl (TypeError ''can't subtract offset-naive and offset-aware datetimes'')"

record DateRangeFilter =
  start_date :: datetime
  end_date :: datetime

definition timedelta_days :: "int \<Rightarrow> int" where
  "timedelta_days delta = delta div 86400000000"

definition DateRangeFilter_init :: "datetime \<Rightarrow> datetime \<Rightarrow> exn + DateRangeFilter" where
  "DateRangeFilter_init s e =
     (let self = \<lparr>start_date = s, end_date = e\<rparr> in
      case datetime_le (end_date self) (start_date self) of
        Inl err \<Rightarrow> Inl err
      | Inr not_after \<Rightarrow>
          if not_after then Inl (ValueError ''end_date must be after start_date'')
          else (case datetime_sub (end_date self) (start_date self) of
                  Inl err \<Rightarrow> Inl err
                | Inr delta \<Rightarrow>
                    if timedelta_days delta > 365
                    then Inl (ValueError ''Date range cannot exceed 1 year'')
                    else Inr self))"

text \<open>
  A password is a list of characters of any kind \<open>'c\<close>, and the character classes
  \<^verbatim>\<open>str.isupper\<close>, \<^verbatim>\<open>str.islower\<close> and \<^verbatim>\<open>str.isdigit\<close> of one
  character are parameters of the validator, so that the model is that of the code for
  the characters and classes of the language.
\<close>

record 'c PasswordReset =
  new_password :: "'c list"
  confirm_password :: "'c list"

definition validate_password ::
  "('c \<Rightarrow> bool) \<Rightarrow> ('c \<Rightarrow> bool) \<Rightarrow> ('c \<Rightarrow> bool) \<Rightarrow> 'c list \<Rightarrow> exn + 'c list" where
  "validate_password isupper islower isdigit v =
     (if \<not> list_ex isupper v then Inl (ValueError ''Password must contain uppercase letter'')
      else if \<not> list_ex islower v then Inl (ValueError ''Password must contain lowercase letter'')
      else if \<not> list_ex isdigit v then Inl (ValueError ''Password must contain digit'')
      else Inr v)"

text \<open>The declared bounds of the two fields: \<^verbatim>\<open>min_length=8, max_length=100\<close>.\<close>

definition PasswordReset_bounds_ok :: "'c list \<Rightarrow> 'c list \<Rightarrow> bool" where
  "PasswordReset_bounds_ok np cp \<longleftrightarrow>
     8 \<le> length np \<and> length np \<le> 100 \<and> 8 \<le> length cp \<and> length cp \<le> 100"

text \<open>Model construction: the declared bounds of both fields, the field validator of
  the new password, then the model validator \<^verbatim>\<open>passwords_match\<close>.\<close>

definition PasswordReset_init ::
  "('c \<Rightarrow> bool) \<Rightarrow> ('c \<Rightarrow> bool) \<Rightarrow> ('c \<Rightarrow> bool) \<Rightarrow> 'c list \<Rightarrow> 'c list \<Rightarrow> exn + 'c PasswordReset" where
  "PasswordReset_init isupper islower isdigit np cp =
     (if \<not> PasswordReset_bounds_ok np cp
      then Inl (ValueError ''validation error for PasswordReset'')
      else (case validate_password isupper islower isdigit np of
              Inl e \<Rightarrow> Inl e
            | Inr v \<Rightarrow>
                let self = \<lparr>new_password = v, confirm_password = cp\<rparr> in
                if new_password self \<noteq> confirm_password self
                then Inl (ValueError ''Passwords do not match'')
                else Inr self))"


section \<open>Example data\<close>

definition example_docs :: "Product list" where
  "example_docs =
     [\<lparr>doc_id = 3, name = ''Lamp'', description = ''Desk lamp'', category = ''home'',
       price = 20, stock = 4, tags = [''sale''], is_active = True, is_featured = False,
       created_at = 30, updated_at = 30\<rparr>,
      \<lparr>doc_id = 1, name = ''Laptop'', description = ''Gaming laptop'', category = ''electronics'',
       price = 900, stock = 0, tags = [], is_active = True, is_featured = True,
       created_at = 10, updated_at = 10\<rparr>,
      \<lparr>doc_id = 2, name = ''Mouse'', description = ''Wireless mouse'', category = ''electronics'',
       price = 15, stock = 7, tags = [''sale''], is_active = True, is_featured = False,
       created_at = 20, updated_at = 20\<rparr>]"

definition no_filters :: ProductFilters where
  "no_filters = \<lparr>f_q = None, f_category = None, f_min_price = None, f_max_price = None,
                 f_in_stock = None, f_tags = [], f_is_active = None\<rparr>"

definition example_search :: SearchQuery where
  "example_search = \<lparr>s_q = None, s_category = None, s_min_price = None, s_max_price = None,
                     s_in_stock = Some True, s_tags = [], s_sort_by = ''price'', s_order = ''asc'',
                     s_page = 1, s_page_size = 2\<rparr>"


definition example_ObjectId :: "string \<Rightarrow> exn + nat" where
  "example_ObjectId s = (if s = ''1'' then Inr 1 else Inl (OtherError ''InvalidId''))"


text \<open>A rendering of whole-valued floats, for the examples.\<close>

definition example_str_float :: "rat \<Rightarrow> string" where
  "example_str_float x = str_int \<lfloor>x\<rfloor> @ ''.0''"


definition example_product :: Product_cf where
  "example_product = \<lparr>cf_name = ''Pen'', cf_category = ''Office'', cf_price = 3, cf_quantity = 5,
                       cf_cost = 2, cf_low_stock_threshold = 5, cf_last_updated = 0\<rparr>"

definition example_store :: collection where
  "example_store = [1 \<mapsto> example_product]"

definition example_library :: library where
  "example_library = \<lparr>lib_ObjectId = example_ObjectId, lib_normalize_text = id, lib_round2 = id,
                        lib_str_float = example_str_float, lib_now = 7\<rparr>"

text \<open>The character classes on ASCII text.\<close>

definition ascii_isupper :: "char \<Rightarrow> bool" where
  "ascii_isupper c \<longleftrightarrow> 65 \<le> (of_char c :: nat) \<and> (of_char c :: nat) \<le> 90"

definition ascii_islower :: "char \<Rightarrow> bool" where
  "ascii_islower c \<longleftrightarrow> 97 \<le> (of_char c :: nat) \<and> (of_char c :: nat) \<le> 122"

definition ascii_isdigit :: "char \<Rightarrow> bool" where
  "ascii_isdigit c \<longleftrightarrow> 48 \<le> (of_char c :: nat) \<and> (of_char c :: nat) \<le> 57"


section \<open>header-cookie-depends-best-practices/example.py\<close>




datatype UserRole = admin | moderator | user



















section \<open>Domain exceptions of the product-details handler\<close>

text \<open>
  C7. For every product id, when the lookup \<open>get_product_or_fail\<close> raises
  \<open>InvalidProductIDError\<close> the product-details handler raises an \<open>HTTPException\<close>
  with status 400, when it raises \<open>ProductNotFoundError\<close> the handler raises one
  with status 404, both carrying the message of the domain exception, as the two
  \<^verbatim>\<open>except\<close> clauses do for every message; and the handler never answers 500.
\<close>

theorem get_product_details_status:
  "(get_product_or_fail product_id = Inl (InvalidProductIDError m) \<longrightarrow>
      get_product_details product_id = Inl (HTTPException 400 m)) \<and>
   (get_product_or_fail product_id = Inl (ProductNotFoundError m) \<longrightarrow>
      get_product_details product_id = Inl (HTTPException 404 m)) \<and>
   get_product_details_except (InvalidProductIDError m) = Inl (HTTPException 400 m) \<and>
   get_product_details_except (ProductNotFoundError m) = Inl (HTTPException 404 m) \<and>
   (\<forall>d. get_product_details product_id \<noteq> Inl (HTTPException 500 d))"
  by (simp add: get_product_details_def get_product_or_fail_def try_except_def
      simulated_product_def)

theorem get_product_details_status_witness:
  "get_product_or_fail ''ab'' = Inl (InvalidProductIDError ''Invalid product ID: ab'') \<and>
   get_product_details ''ab'' = Inl (HTTPException 400 ''Invalid product ID: ab'') \<and>
   get_product_or_fail ''abc'' = Inl (ProductNotFoundError ''Product abc not found'') \<and>
   get_product_details ''abc'' = Inl (HTTPException 404 ''Product abc not found'')"
  using get_product_details_status [of "''ab''" "''Invalid product ID: ab''"]
    get_product_details_status [of "''abc''" "''Product abc not found''"]
  by (simp add: get_product_or_fail_def simulated_product_def)

section \<open>Offset pagination\<close>

lemma ceil_pos: "0 < t \<Longrightarrow> 1 \<le> ps \<Longrightarrow> 1 \<le> \<lceil>(of_int t :: rat) / of_int ps\<rceil>"
  by (simp add: less_ceiling_iff flip: add1_zle_eq) 

lemma calc_total_pages_ok:
  assumes "1 \<le> ps" "0 \<le> t"
  obtains tp where "calc_total_pages t ps = Inr tp" "1 \<le> tp"
    "tp = (if t = 0 then 1 else \<lceil>(of_int t :: rat) / of_int ps\<rceil>)"
proof -
  have "calc_total_pages t ps = Inr (if t = 0 then 1 else \<lceil>(of_int t :: rat) / of_int ps\<rceil>)"
    using assms by (auto simp: calc_total_pages_def ceil_div_def)
  moreover have "1 \<le> (if t = 0 then 1 else \<lceil>(of_int t :: rat) / of_int ps\<rceil>)"
    using ceil_pos[of t ps] assms by auto
  ultimately show thesis using that by blast
qed

lemma list_products_basic_answer:
  assumes "valid_page_query p ps"
  shows "\<exists>r. list_products_basic str_oid (Inr docs) p ps = Inr r \<and>
     total r = int (length (active_products docs)) \<and> page r = p \<and> page_size r = ps \<and>
     total_pages r = (if total r = 0 then 1 else \<lceil>(of_int (total r) :: rat) / of_int ps\<rceil>) \<and>
     has_next r = (p < total_pages r) \<and> has_prev r = (p > 1) \<and>
     items r = map (ProductListItem_from_document str_oid)
       (take (nat ps) (drop (nat ((p - 1) * ps)) (db_sort ''-created_at'' (active_products docs))))"
proof -
  from assms have b: "1 \<le> p" "1 \<le> ps" "ps \<le> 100" by (auto simp: valid_page_query_def)
  obtain tp where tp: "calc_total_pages (int (length (active_products docs))) ps = Inr tp" "1 \<le> tp"
    "tp = (if int (length (active_products docs)) = 0 then 1
           else \<lceil>(of_int (int (length (active_products docs))) :: rat) / of_int ps\<rceil>)"
    using calc_total_pages_ok[OF b(2), of "int (length (active_products docs))"] by auto
  have "list_products_basic str_oid (Inr docs) p ps =
     Inr \<lparr>total = int (length (active_products docs)), page = p, page_size = ps,
          total_pages = tp, has_next = (p < tp), has_prev = (p > 1),
          items = map (ProductListItem_from_document str_oid)
             (take (nat ps) (drop (nat ((p - 1) * ps)) (db_sort ''-created_at'' (active_products docs))))\<rparr>"
    using assms b tp(1,2)
    by (simp add: list_products_basic_def try_except_def list_products_basic_try_def
        PaginatedResponse_init_def db_limit_def db_skip_def Let_def)
  with tp(3) show ?thesis by simp
qed

lemma filter_products_answer:
  assumes "valid_page_query p ps" "valid_filter_query f"
  shows "\<exists>r. filter_products RegEx str_oid (Inr docs) f p ps sort_by order = Inr r \<and>
     total r = int (length (Product_find (build_conditions RegEx f) docs)) \<and>
     page r = p \<and> page_size r = ps \<and>
     total_pages r = (if total r = 0 then 1 else \<lceil>(of_int (total r) :: rat) / of_int ps\<rceil>) \<and>
     has_next r = (p < total_pages r) \<and> has_prev r = (p > 1) \<and>
     items r = map (ProductResponse_from_document str_oid)
             (take (nat ps) (drop (nat ((p - 1) * ps))
                (db_sort ((if order = desc then ''-'' else ''+'') @ SortField_value sort_by)
                   (Product_find (build_conditions RegEx f) docs))))"
proof -
  from assms have b: "1 \<le> p" "1 \<le> ps" "ps \<le> 100" by (auto simp: valid_page_query_def)
  define q where "q = Product_find (build_conditions RegEx f) docs"
  obtain tp where tp: "calc_total_pages (int (length q)) ps = Inr tp" "1 \<le> tp"
    "tp = (if int (length q) = 0 then 1 else \<lceil>(of_int (int (length q)) :: rat) / of_int ps\<rceil>)"
    using calc_total_pages_ok[OF b(2), of "int (length q)"] by auto
  have "filter_products RegEx str_oid (Inr docs) f p ps sort_by order =
     Inr \<lparr>total = int (length q), page = p, page_size = ps,
          total_pages = tp, has_next = (p < tp), has_prev = (p > 1),
          items = map (ProductResponse_from_document str_oid)
             (take (nat ps) (drop (nat ((p - 1) * ps))
                (db_sort ((if order = desc then ''-'' else ''+'') @ SortField_value sort_by) q)))\<rparr>"
    using assms b tp(1,2)
    by (simp add: filter_products_def try_except_def filter_products_try_def
        PaginationParams_init_def PaginatedResponse_init_def db_limit_def db_skip_def Let_def
        flip: q_def)
  with tp(3) show ?thesis by (simp add: q_def)
qed

lemma search_products_answer:
  assumes "valid_search_query s"
  shows "\<exists>r. search_products RegEx str_oid (Inr docs) s = Inr r \<and>
     total r = int (length (Product_find (search_conditions RegEx s) docs)) \<and>
     page r = s_page s \<and> page_size r = s_page_size s \<and>
     total_pages r = (if total r = 0 then 1
                      else \<lceil>(of_int (total r) :: rat) / of_int (s_page_size s)\<rceil>) \<and>
     has_next r = (s_page s < total_pages r) \<and> has_prev r = (s_page s > 1) \<and>
     items r = map (ProductResponse_from_document str_oid)
             (take (nat (s_page_size s)) (drop (nat ((s_page s - 1) * s_page_size s))
                (db_sort ((if s_order s = ''desc'' then ''-'' else ''+'') @ s_sort_by s)
                   (Product_find (search_conditions RegEx s) docs))))"
proof -
  from assms have b: "1 \<le> s_page s" "1 \<le> s_page_size s" "s_page_size s \<le> 100"
    by (auto simp: valid_search_query_def valid_page_query_def)
  define q where "q = Product_find (search_conditions RegEx s) docs"
  obtain tp where tp: "calc_total_pages (int (length q)) (s_page_size s) = Inr tp" "1 \<le> tp"
    "tp = (if int (length q) = 0 then 1
           else \<lceil>(of_int (int (length q)) :: rat) / of_int (s_page_size s)\<rceil>)"
    using calc_total_pages_ok[OF b(2), of "int (length q)"] by auto
  have "search_products RegEx str_oid (Inr docs) s =
     Inr \<lparr>total = int (length q), page = s_page s, page_size = s_page_size s,
          total_pages = tp, has_next = (s_page s < tp), has_prev = (s_page s > 1),
          items = map (ProductResponse_from_document str_oid)
             (take (nat (s_page_size s)) (drop (nat ((s_page s - 1) * s_page_size s))
                (db_sort ((if s_order s = ''desc'' then ''-'' else ''+'') @ s_sort_by s) q)))\<rparr>"
    using assms b tp(1,2)
    by (simp add: search_products_def try_except_def search_products_try_def
        PaginatedResponse_init_def db_limit_def db_skip_def Let_def
        flip: q_def)
  with tp(3) show ?thesis by (simp add: q_def)
qed

lemma example_active: "active_products example_docs = example_docs"
  by (simp add: active_products_def example_docs_def)

lemma example_counts:
  "length example_docs = 3"
  "Product_find (build_conditions RegEx no_filters) example_docs = example_docs"
  "length (Product_find (search_conditions RegEx example_search) example_docs) = 2"
  by (simp_all add: example_docs_def Product_find_def build_conditions_def no_filters_def
      search_conditions_def example_search_def price_conditions_def stock_condition_def
      tags_condition_def And_def)

text \<open>
  C1 (as amended). On a working database every valid list, filter and search request is
  answered with a page whose \<open>total\<close> is the number of matching documents and whose
  \<open>total_pages\<close> is the ceiling of \<open>total / page_size\<close> when \<open>total\<close> is positive,
  and 1 when \<open>total\<close> is 0.
\<close>

theorem total_pages_formula:
  "(valid_page_query p ps \<longrightarrow>
      (\<exists>r. list_products_basic str_oid (Inr docs) p ps = Inr r \<and>
           total r = int (length (active_products docs)) \<and>
           total_pages r = (if total r = 0 then 1
                            else \<lceil>(of_int (total r) :: rat) / of_int ps\<rceil>))) \<and>
   (valid_page_query p ps \<and> valid_filter_query f \<longrightarrow>
      (\<exists>r. filter_products RegEx str_oid (Inr docs) f p ps sort_by order = Inr r \<and>
           total r = int (length (Product_find (build_conditions RegEx f) docs)) \<and>
           total_pages r = (if total r = 0 then 1
                            else \<lceil>(of_int (total r) :: rat) / of_int ps\<rceil>))) \<and>
   (valid_search_query s \<longrightarrow>
      (\<exists>r. search_products RegEx str_oid (Inr docs) s = Inr r \<and>
           total r = int (length (Product_find (search_conditions RegEx s) docs)) \<and>
           total_pages r = (if total r = 0 then 1
                            else \<lceil>(of_int (total r) :: rat) / of_int (s_page_size s)\<rceil>)))"
proof (intro conjI impI)
  assume "valid_page_query p ps"
  from list_products_basic_answer[OF this, of str_oid docs]
  show "\<exists>r. list_products_basic str_oid (Inr docs) p ps = Inr r \<and>
           total r = int (length (active_products docs)) \<and>
           total_pages r = (if total r = 0 then 1
                            else \<lceil>(of_int (total r) :: rat) / of_int ps\<rceil>)"
    by blast
next
  assume "valid_page_query p ps \<and> valid_filter_query f"
  then have "valid_page_query p ps" "valid_filter_query f" by simp_all
  from filter_products_answer[OF this, of RegEx str_oid docs sort_by order]
  show "\<exists>r. filter_products RegEx str_oid (Inr docs) f p ps sort_by order = Inr r \<and>
           total r = int (length (Product_find (build_conditions RegEx f) docs)) \<and>
           total_pages r = (if total r = 0 then 1
                            else \<lceil>(of_int (total r) :: rat) / of_int ps\<rceil>)"
    by blast
next
  assume "valid_search_query s"
  from search_products_answer[OF this, of RegEx str_oid docs]
  show "\<exists>r. search_products RegEx str_oid (Inr docs) s = Inr r \<and>
           total r = int (length (Product_find (search_conditions RegEx s) docs)) \<and>
           total_pages r = (if total r = 0 then 1
                            else \<lceil>(of_int (total r) :: rat) / of_int (s_page_size s)\<rceil>)"
    by blast
qed

theorem total_pages_formula_witness:
  "valid_page_query 2 2 \<and>
   (\<exists>r. list_products_basic str_nat (Inr example_docs) 2 2 = Inr r \<and>
        total r = 3 \<and> total_pages r = 2) \<and>
   valid_filter_query no_filters \<and>
   (\<exists>r. filter_products (\<lambda>pat txt. False) str_nat (Inr example_docs) no_filters 2 2
          sf_price asc = Inr r \<and> total r = 3 \<and> total_pages r = 2) \<and>
   valid_search_query example_search \<and>
   (\<exists>r. search_products (\<lambda>pat txt. False) str_nat (Inr example_docs) example_search = Inr r \<and>
        total r = 2 \<and> total_pages r = 1)"
proof -
  have v: "valid_page_query 2 2" by (simp add: valid_page_query_def)
  have vf: "valid_filter_query no_filters" by (simp add: valid_filter_query_def no_filters_def)
  have vs: "valid_search_query example_search"
    by (simp add: valid_search_query_def example_search_def valid_page_query_def)
  have ps: "s_page_size example_search = 2" by (simp add: example_search_def)
  note t = total_pages_formula [of 2 2 str_nat example_docs no_filters "\<lambda>pat txt. False"
      sf_price asc example_search]
  from t v obtain r1 where r1: "list_products_basic str_nat (Inr example_docs) 2 2 = Inr r1"
    "total r1 = int (length (active_products example_docs))"
    "total_pages r1 = (if total r1 = 0 then 1 else \<lceil>(of_int (total r1) :: rat) / of_int 2\<rceil>)"
    by blast
  from t v vf obtain r2 where r2:
    "filter_products (\<lambda>pat txt. False) str_nat (Inr example_docs) no_filters 2 2 sf_price asc = Inr r2"
    "total r2 = int (length (Product_find (build_conditions (\<lambda>pat txt. False) no_filters) example_docs))"
    "total_pages r2 = (if total r2 = 0 then 1 else \<lceil>(of_int (total r2) :: rat) / of_int 2\<rceil>)"
    by blast
  from t vs obtain r3 where r3:
    "search_products (\<lambda>pat txt. False) str_nat (Inr example_docs) example_search = Inr r3"
    "total r3 = int (length (Product_find (search_conditions (\<lambda>pat txt. False) example_search) example_docs))"
    "total_pages r3 = (if total r3 = 0 then 1
        else \<lceil>(of_int (total r3) :: rat) / of_int (s_page_size example_search)\<rceil>)"
    by blast
  have c: "\<lceil>(3::rat) / 2\<rceil> = 2" by (rule ceiling_unique) simp_all
  have "total r1 = 3" "total_pages r1 = 2"
    using r1(2,3) c by (simp_all add: example_active example_counts)
  moreover have "total r2 = 3" "total_pages r2 = 2"
    using r2(2,3) c by (simp_all add: example_counts)
  moreover have "total r3 = 2" "total_pages r3 = 1"
    using r3(2,3) by (simp_all add: example_counts ps)
  ultimately show ?thesis using v vf vs r1(1) r2(1) r3(1) by simp
qed

text \<open>
  With no matching document the handler answers \<open>total_pages = 1\<close>, where the ceiling
  of \<open>0 / page_size\<close> is 0.
\<close>

theorem total_pages_empty_counterexample:
  "list_products_basic str_nat (Inr []) 1 20 =
     Inr \<lparr>total = 0, page = 1, page_size = 20, total_pages = 1, has_next = False,
          has_prev = False, items = []\<rparr> \<and>
   \<lceil>(of_int 0 :: rat) / of_int 20\<rceil> \<noteq> (1::int)"
  by (simp add: list_products_basic_def valid_page_query_def try_except_def
      list_products_basic_try_def active_products_def calc_total_pages_def
      PaginatedResponse_init_def db_limit_def db_skip_def db_sort_def sort_by_field_def)


lemma example_sorted:
  "db_sort ''-created_at'' example_docs = [example_docs ! 0, example_docs ! 2, example_docs ! 1]"
  "db_sort ''+price'' example_docs = [example_docs ! 2, example_docs ! 0, example_docs ! 1]"
  by (simp_all add: db_sort_def sort_by_field_def example_docs_def)

lemma example_search_found:
  "Product_find (search_conditions RegEx example_search) example_docs =
     [example_docs ! 0, example_docs ! 2]"
  by (simp add: example_docs_def Product_find_def search_conditions_def example_search_def
      price_conditions_def stock_condition_def tags_condition_def And_def)

lemma example_search_sorted:
  "db_sort ''+price'' [example_docs ! 0, example_docs ! 2] = [example_docs ! 2, example_docs ! 0]"
  by (simp add: db_sort_def sort_by_field_def example_docs_def)

text \<open>
  C2. The skip of an offset-paginated request is \<open>(page - 1) * page_size\<close>: the
  pagination dependency and \<open>get_skip\<close> compute it, and every valid list, filter and
  search request is answered with the matching documents in the requested order with
  exactly the first \<open>(page - 1) * page_size\<close> of them dropped and at most
  \<open>page_size\<close> of the rest kept.
\<close>

theorem offset_skip:
  "pp_skip (PaginationParams_init p ps) = (p - 1) * ps \<and>
   (PaginationParams_pq_init p ps = Inr pq \<longrightarrow> get_skip pq = (p - 1) * ps) \<and>
   (valid_page_query p ps \<longrightarrow>
      (\<exists>r. list_products_basic str_oid (Inr docs) p ps = Inr r \<and>
           items r = map (ProductListItem_from_document str_oid)
             (take (nat ps) (drop (nat ((p - 1) * ps))
                (db_sort ''-created_at'' (active_products docs)))))) \<and>
   (valid_page_query p ps \<and> valid_filter_query f \<longrightarrow>
      (\<exists>r. filter_products RegEx str_oid (Inr docs) f p ps sort_by order = Inr r \<and>
           items r = map (ProductResponse_from_document str_oid)
             (take (nat ps) (drop (nat ((p - 1) * ps))
                (db_sort ((if order = desc then ''-'' else ''+'') @ SortField_value sort_by)
                   (Product_find (build_conditions RegEx f) docs)))))) \<and>
   (valid_search_query s \<longrightarrow>
      (\<exists>r. search_products RegEx str_oid (Inr docs) s = Inr r \<and>
           items r = map (ProductResponse_from_document str_oid)
             (take (nat (s_page_size s)) (drop (nat ((s_page s - 1) * s_page_size s))
                (db_sort ((if s_order s = ''desc'' then ''-'' else ''+'') @ s_sort_by s)
                   (Product_find (search_conditions RegEx s) docs))))))"
proof (intro conjI impI)
  show "pp_skip (PaginationParams_init p ps) = (p - 1) * ps"
    by (simp add: PaginationParams_init_def)
next
  assume "PaginationParams_pq_init p ps = Inr pq"
  then show "get_skip pq = (p - 1) * ps"
    by (auto simp: PaginationParams_pq_init_def get_skip_def split: if_splits)
next
  assume "valid_page_query p ps"
  from list_products_basic_answer[OF this, of str_oid docs]
  show "\<exists>r. list_products_basic str_oid (Inr docs) p ps = Inr r \<and>
           items r = map (ProductListItem_from_document str_oid)
             (take (nat ps) (drop (nat ((p - 1) * ps))
                (db_sort ''-created_at'' (active_products docs))))"
    by blast
next
  assume "valid_page_query p ps \<and> valid_filter_query f"
  then have "valid_page_query p ps" "valid_filter_query f" by simp_all
  from filter_products_answer[OF this, of RegEx str_oid docs sort_by order]
  show "\<exists>r. filter_products RegEx str_oid (Inr docs) f p ps sort_by order = Inr r \<and>
           items r = map (ProductResponse_from_document str_oid)
             (take (nat ps) (drop (nat ((p - 1) * ps))
                (db_sort ((if order = desc then ''-'' else ''+'') @ SortField_value sort_by)
                   (Product_find (build_conditions RegEx f) docs))))"
    by blast
next
  assume "valid_search_query s"
  from search_products_answer[OF this, of RegEx str_oid docs]
  show "\<exists>r. search_products RegEx str_oid (Inr docs) s = Inr r \<and>
           items r = map (ProductResponse_from_document str_oid)
             (take (nat (s_page_size s)) (drop (nat ((s_page s - 1) * s_page_size s))
                (db_sort ((if s_order s = ''desc'' then ''-'' else ''+'') @ s_sort_by s)
                   (Product_find (search_conditions RegEx s) docs))))"
    by blast
qed

theorem offset_skip_witness:
  "PaginationParams_pq_init 3 20 = Inr \<lparr>pq_page = 3, pq_limit = 20\<rparr> \<and>
   get_skip \<lparr>pq_page = 3, pq_limit = 20\<rparr> = 40 \<and>
   valid_page_query 2 2 \<and>
   (\<exists>r. list_products_basic str_nat (Inr example_docs) 2 2 = Inr r \<and>
        map li_name (items r) = [''Laptop'']) \<and>
   valid_filter_query no_filters \<and>
   (\<exists>r. filter_products (\<lambda>pat txt. False) str_nat (Inr example_docs) no_filters 2 2
          sf_price asc = Inr r \<and> map pr_name (items r) = [''Laptop'']) \<and>
   valid_search_query example_search \<and>
   (\<exists>r. search_products (\<lambda>pat txt. False) str_nat (Inr example_docs) example_search = Inr r \<and>
        map pr_name (items r) = [''Mouse'', ''Lamp''])"
proof -
  have pq: "PaginationParams_pq_init 3 20 = Inr \<lparr>pq_page = 3, pq_limit = 20\<rparr>"
    by (simp add: PaginationParams_pq_init_def)
  have v: "valid_page_query 2 2" by (simp add: valid_page_query_def)
  have vf: "valid_filter_query no_filters" by (simp add: valid_filter_query_def no_filters_def)
  have vs: "valid_search_query example_search"
    by (simp add: valid_search_query_def example_search_def valid_page_query_def)
  have es: "s_page_size example_search = 2" "s_page example_search = 1"
    "s_order example_search = ''asc''" "s_sort_by example_search = ''price''"
    by (simp_all add: example_search_def)
  note t = offset_skip [of 2 2 _ str_nat example_docs no_filters "\<lambda>pat txt. False"
      sf_price asc example_search]
  note u = offset_skip [of 3 20 "\<lparr>pq_page = 3, pq_limit = 20\<rparr>"]
  from u pq have g: "get_skip \<lparr>pq_page = 3, pq_limit = 20\<rparr> = 40" by simp
  from t v obtain r1 where r1: "list_products_basic str_nat (Inr example_docs) 2 2 = Inr r1"
    "items r1 = map (ProductListItem_from_document str_nat)
             (take (nat 2) (drop (nat ((2 - 1) * 2))
                (db_sort ''-created_at'' (active_products example_docs))))"
    by blast
  from t v vf obtain r2 where r2:
    "filter_products (\<lambda>pat txt. False) str_nat (Inr example_docs) no_filters 2 2 sf_price asc = Inr r2"
    "items r2 = map (ProductResponse_from_document str_nat)
             (take (nat 2) (drop (nat ((2 - 1) * 2))
                (db_sort ((if asc = desc then ''-'' else ''+'') @ SortField_value sf_price)
                   (Product_find (build_conditions (\<lambda>pat txt. False) no_filters) example_docs))))"
    by blast
  from t vs obtain r3 where r3:
    "search_products (\<lambda>pat txt. False) str_nat (Inr example_docs) example_search = Inr r3"
    "items r3 = map (ProductResponse_from_document str_nat)
             (take (nat (s_page_size example_search))
               (drop (nat ((s_page example_search - 1) * s_page_size example_search))
                (db_sort ((if s_order example_search = ''desc'' then ''-'' else ''+'') @
                     s_sort_by example_search)
                   (Product_find (search_conditions (\<lambda>pat txt. False) example_search) example_docs))))"
    by blast
  have "map li_name (items r1) = [''Laptop'']"
    using r1(2) by (simp add: example_active example_sorted ProductListItem_from_document_def)
       (simp add: example_docs_def)
  moreover have "map pr_name (items r2) = [''Laptop'']"
    using r2(2) by (simp add: example_counts example_sorted ProductResponse_from_document_def)
       (simp add: example_docs_def)
  moreover have "map pr_name (items r3) = [''Mouse'', ''Lamp'']"
    using r3(2)
    by (simp add: es example_search_found example_search_sorted ProductResponse_from_document_def)
       (simp add: example_docs_def)
  ultimately show ?thesis using pq g v vf vs r1(1) r2(1) r3(1) by simp
qed

section \<open>Cursor pagination\<close>

lemma cursor_conditions_cases:
  "cursor_conditions ObjectId cursor cat = Inr conds \<Longrightarrow>
   And conds p \<longleftrightarrow>
     (is_active p \<and> (truthy cat \<longrightarrow> category p = the cat) \<and>
      (truthy cursor \<longrightarrow> (\<exists>cid. ObjectId (the cursor) = Inr cid \<and> doc_id p > cid)))"
  by (auto simp: cursor_conditions_def cursor_parse_except_def try_except_def And_def Let_def
      split: if_splits sum.splits)

lemma cursor_conditions_invalid:
  "truthy cursor \<Longrightarrow> ObjectId (the cursor) = Inl e \<Longrightarrow>
   cursor_conditions ObjectId cursor cat = Inl (HTTPException 400 ''Invalid cursor format'')"
  by (simp add: cursor_conditions_def cursor_parse_except_def try_except_def)

lemma cursor_fetch:
  "1 \<le> limit \<Longrightarrow>
   db_limit (limit + 1) (db_sort ''+_id'' (Product_find conds docs)) =
     take (nat limit + 1) (sort_key doc_id (filter (And conds) docs))"
  by (simp add: db_limit_def db_sort_def sort_by_field_def Product_find_def nat_add_distrib)

lemma cursor_page_of_fetched:
  fixes fetched :: "Product list"
  assumes "1 \<le> limit" "length fetched \<le> nat limit + 1"
  defines "hm \<equiv> int (length fetched) > limit"
  defines "products \<equiv> (if hm then slice_to limit fetched else fetched)"
  shows "products = take (nat limit) fetched"
    and "hm \<longleftrightarrow> length fetched = nat limit + 1"
    and "(if products \<noteq> [] \<and> hm then Some (str_oid (doc_id (last products))) else None) =
         (if hm then Some (pr_id (last (map (ProductResponse_from_document str_oid) products)))
          else None)"
proof -
  show p: "products = take (nat limit) fetched"
    using assms(1) by (auto simp: products_def hm_def slice_to_def)
  show m: "hm \<longleftrightarrow> length fetched = nat limit + 1"
    using assms(1,2) unfolding hm_def by linarith
  show "(if products \<noteq> [] \<and> hm then Some (str_oid (doc_id (last products))) else None) =
         (if hm then Some (pr_id (last (map (ProductResponse_from_document str_oid) products)))
          else None)"
  proof (cases hm)
    case True
    with m p assms(1) have "length products = nat limit" by simp
    with assms(1) have ne: "products \<noteq> []" by auto
    with True show ?thesis
      by (simp add: last_map ProductResponse_from_document_def)
  next
    case False
    then show ?thesis by simp
  qed
qed

lemma example_cursor_conditions:
  "cursor_conditions example_ObjectId (Some ''1'') None =
     Inr [\<lambda>p. is_active p = True, \<lambda>p. doc_id p > 1]"
  by (simp add: cursor_conditions_def cursor_parse_except_def example_ObjectId_def try_except_def)

lemma example_cursor_fetched:
  "sort_key doc_id (filter (And [\<lambda>p. is_active p = True, \<lambda>p. doc_id p > 1]) example_docs) =
     [example_docs ! 2, example_docs ! 0]"
  by (simp add: And_def example_docs_def)

text \<open>
  C3. A cursor request with a valid limit and a cursor that is absent or parses, on a
  working database, runs one query, and what the store hands to the handler is the first
  \<open>limit + 1\<close> matching documents in ascending order of id (active, of the category,
  after the cursor). The response holds the first \<open>limit\<close> of the fetched documents, so
  at most \<open>limit\<close> items; \<open>has_more\<close> is true exactly when \<open>limit + 1\<close> documents were
  fetched; \<open>next_cursor\<close> is the id of the last returned item when \<open>has_more\<close> is true
  and absent otherwise.
\<close>

theorem cursor_page:
  assumes "1 \<le> limit" and "limit \<le> 100"
    and "cursor_conditions ObjectId cursor cat = Inr conds"
  shows "\<exists>r fetched.
     list_products_cursor ObjectId str_oid (Inr docs) cursor limit cat = (Inr r, [fetched]) \<and>
     fetched = take (nat limit + 1) (sort_key doc_id (filter (And conds) docs)) \<and>
     sorted (map doc_id fetched) \<and>
     c_items r = map (ProductResponse_from_document str_oid) (take (nat limit) fetched) \<and>
     length (c_items r) \<le> nat limit \<and>
     (has_more r \<longleftrightarrow> length fetched = nat limit + 1) \<and>
     next_cursor r = (if has_more r then Some (pr_id (last (c_items r))) else None) \<and>
     count r = int (length (c_items r)) \<and>
     (\<forall>p. And conds p \<longleftrightarrow>
        (is_active p \<and> (truthy cat \<longrightarrow> category p = the cat) \<and>
         (truthy cursor \<longrightarrow> (\<exists>cid. ObjectId (the cursor) = Inr cid \<and> doc_id p > cid))))"
proof -
  define fetched where "fetched = take (nat limit + 1) (sort_key doc_id (filter (And conds) docs))"
  define hm where "hm \<longleftrightarrow> int (length fetched) > limit"
  define products where "products = (if hm then slice_to limit fetched else fetched)"
  have len: "length fetched \<le> nat limit + 1" by (simp add: fetched_def)
  note pg = cursor_page_of_fetched[OF assms(1) len, folded hm_def, folded products_def]
  have srt: "sorted (map doc_id fetched)"
    unfolding fetched_def by (simp add: take_map [symmetric] sorted_wrt_take)
  have run: "list_products_cursor ObjectId str_oid (Inr docs) cursor limit cat =
     (Inr \<lparr>c_items = map (ProductResponse_from_document str_oid) products,
          next_cursor = (if products \<noteq> [] \<and> hm
                         then Some (str_oid (doc_id (last products))) else None),
          has_more = hm, count = int (length products)\<rparr>, [fetched])"
    using assms
    by (simp add: list_products_cursor_def list_products_cursor_try_def try_except_def
        cursor_fetch Let_def products_def hm_def fetched_def)
  have "length (map (ProductResponse_from_document str_oid) products) \<le> nat limit"
    using pg(1) by simp
  with run pg srt cursor_conditions_cases[OF assms(3)] show ?thesis
    by (intro exI[of _ "\<lparr>c_items = map (ProductResponse_from_document str_oid) products,
          next_cursor = (if products \<noteq> [] \<and> hm
                         then Some (str_oid (doc_id (last products))) else None),
          has_more = hm, count = int (length products)\<rparr>"] exI[of _ fetched])
       (simp add: fetched_def)
qed

theorem cursor_page_witness:
  "(1::int) \<le> 1 \<and> (1::int) \<le> 100 \<and>
   cursor_conditions example_ObjectId (Some ''1'') None =
     Inr [\<lambda>p. is_active p = True, \<lambda>p. doc_id p > 1] \<and>
   (\<exists>r. list_products_cursor example_ObjectId str_nat (Inr example_docs) (Some ''1'') 1 None =
          (Inr r, [[example_docs ! 2, example_docs ! 0]]) \<and>
        map pr_name (c_items r) = [''Mouse''] \<and> has_more r \<and> next_cursor r = Some ''2'' \<and>
        count r = 1)"
proof -
  have l: "(1::int) \<le> 1" "(1::int) \<le> 100" by simp_all
  from cursor_page [OF l example_cursor_conditions, of str_nat example_docs]
  obtain r fetched where r:
    "list_products_cursor example_ObjectId str_nat (Inr example_docs) (Some ''1'') 1 None =
       (Inr r, [fetched])"
    "fetched = take (nat 1 + 1)
       (sort_key doc_id (filter (And [\<lambda>p. is_active p = True, \<lambda>p. doc_id p > 1]) example_docs))"
    "c_items r = map (ProductResponse_from_document str_nat) (take (nat 1) fetched)"
    "has_more r \<longleftrightarrow> length fetched = nat 1 + 1"
    "next_cursor r = (if has_more r then Some (pr_id (last (c_items r))) else None)"
    "count r = int (length (c_items r))"
    by blast
  have f: "fetched = [example_docs ! 2, example_docs ! 0]"
    using r(2) unfolding example_cursor_fetched by simp
  have i: "c_items r = [ProductResponse_from_document str_nat (example_docs ! 2)]"
    using r(3) f by simp
  have h: "has_more r" using r(4) f by simp
  have n: "map pr_name (c_items r) = [''Mouse'']"
    using i by (simp add: ProductResponse_from_document_def example_docs_def)
  have c: "next_cursor r = Some ''2''"
    using r(5) h i
    by (simp add: ProductResponse_from_document_def example_docs_def str_nat.simps digit_char_def)
  have "count r = 1" using r(6) i by simp
  with l example_cursor_conditions r(1) f n h c show ?thesis by simp
qed

section \<open>Model construction\<close>

lemma validate_password_Inr:
  "validate_password isupper islower isdigit v = Inr w \<Longrightarrow> w = v"
  by (auto simp: validate_password_def split: if_splits)

lemma validate_password_accepts:
  "\<not> isl (validate_password isupper islower isdigit v) \<longleftrightarrow>
     list_ex isupper v \<and> list_ex islower v \<and> list_ex isdigit v"
  by (simp add: validate_password_def)

lemma strong_password:
  "validate_password ascii_isupper ascii_islower ascii_isdigit ''Abcdefg1'' = Inr ''Abcdefg1''"
  by (simp add: validate_password_def ascii_isupper_def ascii_islower_def ascii_isdigit_def)

text \<open>
  C6 (as amended). Model construction enforces the declared bounds of each field, the
  field validators and the cross-field model validators that a model declares. A
  password reset is accepted exactly when both fields are within their length bounds,
  the new password has an uppercase letter, a lowercase letter and a digit, and the two
  passwords are equal. A date range is accepted exactly when its dates are both naive or
  both aware and \<open>end_date\<close> is after \<open>start_date\<close> by at most 365 whole days. A product
  is accepted exactly when each field is within its bounds and the rounded price is not
  below the rounded cost.
\<close>

theorem model_construction_accepts:
  "(\<not> isl (PasswordReset_init isupper islower isdigit np cp) \<longleftrightarrow>
      PasswordReset_bounds_ok np cp \<and>
      list_ex isupper np \<and> list_ex islower np \<and> list_ex isdigit np \<and> np = cp) \<and>
   (\<not> isl (DateRangeFilter_init s e) \<longleftrightarrow>
      (\<exists>a b. (s = Naive a \<and> e = Naive b \<or> s = Aware a \<and> e = Aware b) \<and>
             a < b \<and> timedelta_days (b - a) \<le> 365)) \<and>
   (\<not> isl (Product_cf_init normalize_text round2 str_float now n c pr q co lst) \<longleftrightarrow>
      Product_cf_fields_ok n c pr q co lst \<and> round2 co \<le> round2 pr)"
proof (intro conjI)
  show "\<not> isl (PasswordReset_init isupper islower isdigit np cp) \<longleftrightarrow>
      PasswordReset_bounds_ok np cp \<and>
      list_ex isupper np \<and> list_ex islower np \<and> list_ex isdigit np \<and> np = cp"
    by (auto simp: PasswordReset_init_def validate_password_def Let_def split: sum.splits)
  show "\<not> isl (DateRangeFilter_init s e) \<longleftrightarrow>
      (\<exists>a b. (s = Naive a \<and> e = Naive b \<or> s = Aware a \<and> e = Aware b) \<and>
             a < b \<and> timedelta_days (b - a) \<le> 365)"
    by (cases s; cases e) (auto simp: DateRangeFilter_init_def Let_def)
  show "\<not> isl (Product_cf_init normalize_text round2 str_float now n c pr q co lst) \<longleftrightarrow>
      Product_cf_fields_ok n c pr q co lst \<and> round2 co \<le> round2 pr"
    by (auto simp: Product_cf_init_def Let_def)
qed

theorem model_construction_accepts_witness:
  "PasswordReset_bounds_ok ''Abcdefg1'' ''Abcdefg1'' \<and>
   list_ex ascii_isupper ''Abcdefg1'' \<and> list_ex ascii_islower ''Abcdefg1'' \<and>
   list_ex ascii_isdigit ''Abcdefg1'' \<and>
   \<not> isl (PasswordReset_init ascii_isupper ascii_islower ascii_isdigit ''Abcdefg1'' ''Abcdefg1'') \<and>
   isl (PasswordReset_init ascii_isupper ascii_islower ascii_isdigit ''abcdefgh'' ''abcdefgh'') \<and>
   \<not> isl (DateRangeFilter_init (Aware 0) (Aware 86400000000)) \<and>
   isl (DateRangeFilter_init (Naive 0) (Aware 86400000000)) \<and>
   Product_cf_fields_ok ''Pen'' ''Office'' 3 5 2 5 \<and>
   \<not> isl (Product_cf_init id id example_str_float 0 ''Pen'' ''Office'' 3 5 2 5)"
proof -
  have a: "PasswordReset_bounds_ok ''Abcdefg1'' ''Abcdefg1''"
    "PasswordReset_bounds_ok ''abcdefgh'' ''abcdefgh''"
    by (simp_all add: PasswordReset_bounds_ok_def)
  have u: "list_ex ascii_isupper ''Abcdefg1''" "list_ex ascii_islower ''Abcdefg1''"
    "list_ex ascii_isdigit ''Abcdefg1''" "\<not> list_ex ascii_isupper ''abcdefgh''"
    by (simp_all add: ascii_isupper_def ascii_islower_def ascii_isdigit_def)
  have b: "Product_cf_fields_ok ''Pen'' ''Office'' 3 5 2 5"
    by (simp add: Product_cf_fields_ok_def)
  have c: "timedelta_days (86400000000 - 0) \<le> 365" by (simp add: timedelta_days_def)
  note t1 = model_construction_accepts [of ascii_isupper ascii_islower ascii_isdigit
      "''Abcdefg1''" "''Abcdefg1''" "Aware 0" "Aware 86400000000"
      id id example_str_float 0 "''Pen''" "''Office''" 3 5 2 5]
  note t2 = model_construction_accepts [of ascii_isupper ascii_islower ascii_isdigit
      "''abcdefgh''" "''abcdefgh''" "Naive 0" "Aware 86400000000"]
  have p1: "\<not> isl (PasswordReset_init ascii_isupper ascii_islower ascii_isdigit ''Abcdefg1'' ''Abcdefg1'')"
    using t1 a u by simp
  have p2: "isl (PasswordReset_init ascii_isupper ascii_islower ascii_isdigit ''abcdefgh'' ''abcdefgh'')"
    using t2 u by simp
  have d1: "\<not> isl (DateRangeFilter_init (Aware 0) (Aware 86400000000))"
    using t1 c by simp
  have d2: "isl (DateRangeFilter_init (Naive 0) (Aware 86400000000))"
    using t2 by simp
  have p3: "\<not> isl (Product_cf_init id id example_str_float 0 ''Pen'' ''Office'' 3 5 2 5)"
    using t1 b by simp
  from a u b p1 p2 d1 d2 p3 show ?thesis by simp
qed

text \<open>
  Field assignments in which every field satisfies its own declared bounds and that
  construction rejects for what two fields are together: two strong passwords that
  differ, an end date before the start date, a positive price below a positive cost.
\<close>

theorem cross_field_counterexample:
  "PasswordReset_bounds_ok ''Abcdefg1'' ''Abcdefg2'' \<and>
   PasswordReset_init ascii_isupper ascii_islower ascii_isdigit ''Abcdefg1'' ''Abcdefg2'' =
     Inl (ValueError ''Passwords do not match'') \<and>
   DateRangeFilter_init (Naive 86400000000) (Naive 0) =
     Inl (ValueError ''end_date must be after start_date'') \<and>
   Product_cf_fields_ok ''Pen'' ''Office'' 1 5 2 5 \<and>
   Product_cf_init id id example_str_float 0 ''Pen'' ''Office'' 1 5 2 5 =
     Inl (ValueError ''Price (1.0) cannot be less than cost (2.0)'')"
  by (simp add: PasswordReset_bounds_ok_def PasswordReset_init_def strong_password
      DateRangeFilter_init_def Product_cf_fields_ok_def Product_cf_init_def
      example_str_float_def str_int_def str_nat.simps digit_char_def)

section \<open>Stock of a product\<close>

lemma quantities_ok_update:
  "quantities_ok store \<Longrightarrow> 0 \<le> cf_quantity p \<Longrightarrow> quantities_ok (store(k \<mapsto> p))"
  by (auto simp: quantities_ok_def ran_def split: if_splits)

lemma example_store_ok: "quantities_ok example_store"
  by (simp add: quantities_ok_def example_store_def example_product_def)

text \<open>
  What \<open>adjust_stock\<close> does with a product that \<open>Product.get\<close> has found: a sum
  below 0 is refused with status 400 and nothing is written; a sum that the store cannot
  hold raises out of \<^verbatim>\<open>save\<close> and nothing is written; any other sum is written
  under the id of the product.
\<close>

lemma adjust_stock_found:
  assumes "Product_get lib store product_id = Inr (Some (oid, product))"
  shows "cf_quantity product + adjustment adj < 0 \<Longrightarrow>
      adjust_stock lib store product_id adj =
        (Inl (HTTPException 400
           (''Cannot remove '' @ str_int \<bar>adjustment adj\<bar> @ '' items. Only '' @
            str_int (cf_quantity product) @ '' in stock.'')), store)"
    and "0 \<le> cf_quantity product + adjustment adj \<Longrightarrow>
      int64 (cf_quantity product + adjustment adj) \<Longrightarrow> int64 (cf_low_stock_threshold product) \<Longrightarrow>
      adjust_stock lib store product_id adj =
        (Inr (oid, product\<lparr>cf_quantity := cf_quantity product + adjustment adj\<rparr>),
         store(oid \<mapsto> product\<lparr>cf_quantity := cf_quantity product + adjustment adj\<rparr>))"
    and "0 \<le> cf_quantity product + adjustment adj \<Longrightarrow>
      \<not> int64 (cf_quantity product + adjustment adj) \<Longrightarrow>
      adjust_stock lib store product_id adj =
        (Inl (OverflowError ''MongoDB can only handle up to 8-byte ints''), store)"
  using assms by (simp_all add: adjust_stock_def Product_save_def Let_def)

lemma adjust_stock_quantities_ok:
  assumes "quantities_ok store"
  shows "quantities_ok (snd (adjust_stock lib store product_id adj))"
proof (cases "Product_get lib store product_id")
  case (Inl e)
  with assms show ?thesis by (simp add: adjust_stock_def)
next
  case (Inr found)
  show ?thesis
  proof (cases found)
    case None
    with Inr assms show ?thesis by (simp add: adjust_stock_def)
  next
    case (Some op)
    obtain oid product where op: "op = (oid, product)" by (cases op)
    show ?thesis
    proof (cases "cf_quantity product + adjustment adj < 0")
      case True
      with Inr Some op assms show ?thesis by (simp add: adjust_stock_def)
    next
      case False
      then have "0 \<le> cf_quantity (product\<lparr>cf_quantity := cf_quantity product + adjustment adj\<rparr>)"
        by simp
      from quantities_ok_update[OF assms this, of oid] Inr Some op False assms
      show ?thesis by (simp add: adjust_stock_def Product_save_def Let_def)
    qed
  qed
qed

text \<open>
  The route never answers with a product: whatever \<open>adjust_stock\<close> returns has an
  object id where the response model wants a string. What was written stays written.
\<close>

lemma adjust_stock_route_no_answer:
  "fst (adjust_stock_route lib store product_id adj) \<noteq> Inr response"
  "snd (adjust_stock_route lib store product_id adj) = store \<or>
   snd (adjust_stock_route lib store product_id adj) = snd (adjust_stock lib store product_id adj)"
  by (auto simp: adjust_stock_route_def ProductResponse_cf_validate_def
      split: prod.splits sum.splits)

lemma two_pow_63: "(2::int) ^ 63 = 9223372036854775808"
  by simp

lemma example_get:
  "Product_get example_library example_store ''1'' =
     Inr (Some (1, example_product\<lparr>cf_last_updated := 7\<rparr>))"
  by (simp add: Product_get_def example_library_def example_ObjectId_def example_store_def
      Product_cf_init_def Product_cf_fields_ok_def example_product_def)

text \<open>
  C8. The stored product with quantity 5 and the adjustment 3: the route writes the
  quantity 8 and then answers with the failure of the response model, where the claim has
  it succeed. With the adjustment \<open>2 ^ 63 = 9223372036854775808\<close> the write raises and the stored quantity
  stays 5, where the claim has it become the sum. With the adjustment \<open>- 9\<close> the route
  answers 400 and nothing is written, as the claim says.
\<close>

theorem adjust_stock_route_fails_after_save:
  "adjust_stock_route example_library example_store ''1'' \<lparr>adjustment = 3, reason = None\<rparr> =
     (Inl ResponseValidationError,
      example_store(1 \<mapsto> \<lparr>cf_name = ''Pen'', cf_category = ''Office'', cf_price = 3, cf_quantity = 8,
         cf_cost = 2, cf_low_stock_threshold = 5, cf_last_updated = 7\<rparr>)) \<and>
   adjust_stock_route example_library example_store ''1''
       \<lparr>adjustment = 9223372036854775808, reason = None\<rparr> =
     (Inl (OverflowError ''MongoDB can only handle up to 8-byte ints''), example_store) \<and>
   adjust_stock_route example_library example_store ''1'' \<lparr>adjustment = - 9, reason = None\<rparr> =
     (Inl (HTTPException 400 ''Cannot remove 9 items. Only 5 in stock.''), example_store)"
proof -
  have q: "cf_quantity example_product = 5" "cf_low_stock_threshold example_product = 5"
    by (simp_all add: example_product_def)
  have m: "str_int \<bar>- 9\<bar> = ''9''" "str_int 5 = ''5''"
    by (simp_all add: str_int_def str_nat.simps digit_char_def)
  have a: "adjust_stock example_library example_store ''1'' \<lparr>adjustment = 3, reason = None\<rparr> =
     (Inr (1, \<lparr>cf_name = ''Pen'', cf_category = ''Office'', cf_price = 3, cf_quantity = 8,
         cf_cost = 2, cf_low_stock_threshold = 5, cf_last_updated = 7\<rparr>),
      example_store(1 \<mapsto> \<lparr>cf_name = ''Pen'', cf_category = ''Office'', cf_price = 3, cf_quantity = 8,
         cf_cost = 2, cf_low_stock_threshold = 5, cf_last_updated = 7\<rparr>))"
    using adjust_stock_found(2)[OF example_get, of "\<lparr>adjustment = 3, reason = None\<rparr>"] q
    by (simp add: int64_def example_product_def)
  have b: "adjust_stock example_library example_store ''1''
       \<lparr>adjustment = 9223372036854775808, reason = None\<rparr> =
     (Inl (OverflowError ''MongoDB can only handle up to 8-byte ints''), example_store)"
    using adjust_stock_found(3)[OF example_get, of "\<lparr>adjustment = 9223372036854775808, reason = None\<rparr>"] q
    by (simp add: int64_def)
  have c: "adjust_stock example_library example_store ''1'' \<lparr>adjustment = - 9, reason = None\<rparr> =
     (Inl (HTTPException 400 ''Cannot remove 9 items. Only 5 in stock.''), example_store)"
    using adjust_stock_found(1)[OF example_get, of "\<lparr>adjustment = - 9, reason = None\<rparr>"] q m
    by simp
  show ?thesis
    by (simp add: adjust_stock_route_def a b c ProductResponse_cf_validate_def)
qed

text \<open>
  C9. The computed fields of a product agree: \<open>stock_status\<close> is one of
  \<^verbatim>\<open>out_of_stock\<close>, \<^verbatim>\<open>low_stock\<close>, \<^verbatim>\<open>in_stock\<close>; \<open>in_stock\<close> holds
  exactly when the quantity is positive; and, the quantity of a product being at least 0
  as its field declares and construction enforces, \<open>in_stock\<close> holds exactly when
  \<open>stock_status\<close> is not \<^verbatim>\<open>out_of_stock\<close>.
\<close>

theorem computed_fields_consistent:
  "stock_status product \<in> {''out_of_stock'', ''low_stock'', ''in_stock''} \<and>
   (in_stock product \<longleftrightarrow> cf_quantity product > 0) \<and>
   (0 \<le> cf_quantity product \<longrightarrow>
      (in_stock product \<longleftrightarrow> stock_status product \<noteq> ''out_of_stock'')) \<and>
   (Product_cf_init normalize_text round2 str_float now n c pr q co lst = Inr product \<longrightarrow>
      0 \<le> cf_quantity product)"
  by (auto simp: stock_status_def in_stock_def Product_cf_init_def Product_cf_fields_ok_def
      Let_def split: if_splits)

theorem computed_fields_consistent_witness:
  "Product_cf_init (\<lambda>s. s) (\<lambda>x. x) example_str_float 0 ''Pen'' ''Office'' 3 5 2 5 =
     Inr example_product \<and>
   0 \<le> cf_quantity example_product \<and>
   stock_status example_product = ''low_stock'' \<and>
   in_stock example_product \<and>
   stock_status example_product \<noteq> ''out_of_stock''"
proof -
  have c: "Product_cf_init (\<lambda>s. s) (\<lambda>x. x) example_str_float 0 ''Pen'' ''Office'' 3 5 2 5 =
     Inr example_product"
    by (simp add: Product_cf_init_def Product_cf_fields_ok_def example_product_def)
  have s: "stock_status example_product = ''low_stock''"
    by (simp add: stock_status_def example_product_def)
  have q: "cf_quantity example_product = 5" by (simp add: example_product_def)
  from c s q
    computed_fields_consistent [of example_product "\<lambda>s. s" "\<lambda>x. x" example_str_float 0
      "''Pen''" "''Office''" 3 5 2 5]
  show ?thesis by simp
qed

section \<open>Module-level data\<close>




end
